theory Spec2Isabelle
  imports Main
begin

section \<open>The regex connector of pybotframework\<close>

text \<open>
  The class \<open>RegexConnector\<close> (module \<open>pybotframework.regex_connector\<close>, shown in the
  tutorial notebook) classifies a message with \<open>re.match\<close> against an ordered rule list and
  answers with a template drawn by \<open>random.choice\<close> and filled by \<open>str.format\<close>.

  The three library functions are modelled first, each for a fragment of its input language
  that is written out below; the connector's own methods follow and use them exactly where
  the source calls the library.

  A \<open>char\<close> stands for one code point below 256, so a \<open>string\<close> is a Python \<open>str\<close> of
  such code points.
\<close>

subsection \<open>Exceptions\<close>

text \<open>
  The exceptions that can leave the connector. \<open>Unmodelled\<close> is not a Python exception: it
  marks a pattern or a template outside the modelled fragment of the library, where the
  model says nothing about what Python does.
\<close>

datatype pyerror = ReError | ValueError | IndexError | KeyError | Unmodelled

subsection \<open>Regular expressions: the fragment of \<open>re\<close>\<close>

text \<open>
  The fragment: literal characters, \<open>.\<close>, a backslash before an ASCII character that is
  neither a letter nor a digit, the greedy postfix operators \<open>*\<close>, \<open>+\<close> and \<open>?\<close> on an item that
  cannot match the empty string, alternation \<open>|\<close>, capturing groups \<open>(...)\<close>, groups
  \<open>(?:...)\<close> that do not capture, and the flag \<open>(?i)\<close> at the very start of the pattern.
  Groups are numbered from 1 by their opening parenthesis.
\<close>

datatype regex =
    Eps
  | Lit char
  | AnyChar
  | Seq regex regex
  | Alt regex regex
  | Star regex
  | Group nat regex

fun nullable :: "regex \<Rightarrow> bool" where
  "nullable Eps = True"
| "nullable (Lit c) = False"
| "nullable AnyChar = False"
| "nullable (Seq a b) = (nullable a \<and> nullable b)"
| "nullable (Alt a b) = (nullable a \<or> nullable b)"
| "nullable (Star a) = True"
| "nullable (Group i a) = nullable a"

text \<open>
  The parser keeps a stack of open groups. A frame holds the group's number (\<open>None\<close> for the
  pattern itself and for \<open>(?:\<close>), the finished alternatives and the items of the current
  alternative, both latest first; an item remembers whether it already carries a postfix
  operator.
\<close>

type_synonym frame = "nat option \<times> regex list \<times> (regex \<times> bool) list"

fun mk_seq :: "regex list \<Rightarrow> regex" where
  "mk_seq [] = Eps"
| "mk_seq [r] = r"
| "mk_seq (r # rs) = Seq r (mk_seq rs)"

fun mk_alt :: "regex list \<Rightarrow> regex" where
  "mk_alt [] = Eps"
| "mk_alt [r] = r"
| "mk_alt (r # rs) = Alt r (mk_alt rs)"

definition close_branch :: "(regex \<times> bool) list \<Rightarrow> regex" where
  "close_branch items = mk_seq (rev (map fst items))"

definition close_frame :: "frame \<Rightarrow> regex" where
  "close_frame f =
     (case f of (g, alts, items) \<Rightarrow>
        (let body = mk_alt (rev (close_branch items # alts))
         in case g of None \<Rightarrow> body | Some i \<Rightarrow> Group i body))"

datatype quantifier = QStar | QPlus | QOpt

definition quantify :: "quantifier \<Rightarrow> regex \<Rightarrow> regex" where
  "quantify q r =
     (case q of QStar \<Rightarrow> Star r | QPlus \<Rightarrow> Seq r (Star r) | QOpt \<Rightarrow> Alt r Eps)"

definition is_ascii_alnum :: "char \<Rightarrow> bool" where
  "is_ascii_alnum c =
     (let n = (of_char c :: nat)
      in (48 \<le> n \<and> n \<le> 57) \<or> (65 \<le> n \<and> n \<le> 90) \<or> (97 \<le> n \<and> n \<le> 122))"

definition is_ascii :: "char \<Rightarrow> bool" where
  "is_ascii c = ((of_char c :: nat) < 128)"

text \<open>
  One step of the parser, on the character \<open>c\<close> with the rest \<open>cs\<close> of the pattern after it.
  The arguments are the stack (innermost group first) and the number of capturing groups
  opened so far; the result is the new stack, the new number of groups and how many
  characters of \<open>cs\<close> the step has read as well (the \<open>?:\<close> of \<open>(?:\<close>, the character after a
  backslash).

  \<open>)\<close> with no open group, \<open>(\<close> as the last character, a postfix operator with nothing
  before it and a backslash at the end are errors of \<open>re\<close>. Outside the fragment are \<open>[\<close>,
  \<open>{\<close>, \<open>^\<close>, \<open>$\<close>, \<open>(?\<close> other than \<open>(?:\<close>, a backslash before a letter, a digit or a character
  outside ASCII, a postfix operator after a postfix operator and one on an item that can
  match the empty string.
\<close>

definition parse_step ::
  "frame list \<Rightarrow> nat \<Rightarrow> char \<Rightarrow> string \<Rightarrow> pyerror + (frame list \<times> nat \<times> nat)" where
  "parse_step stack n c cs =
     (case stack of
        [] \<Rightarrow> Inl ReError
      | (g, alts, items) # up \<Rightarrow>
          if c = CHR ''('' then
            (case cs of
               [] \<Rightarrow> Inl ReError
             | d # ds \<Rightarrow>
                 if d = CHR ''?'' then
                   (case ds of
                      [] \<Rightarrow> Inl Unmodelled
                    | e # es \<Rightarrow>
                        if e = CHR '':'' then Inr ((None, [], []) # stack, n, 2)
                        else Inl Unmodelled)
                 else Inr ((Some (Suc n), [], []) # stack, Suc n, 0))
          else if c = CHR '')'' then
            (case up of
               [] \<Rightarrow> Inl ReError
             | (g', alts', items') # up' \<Rightarrow>
                 Inr ((g', alts', (close_frame (g, alts, items), False) # items') # up', n, 0))
          else if c = CHR ''|'' then
            Inr ((g, close_branch items # alts, []) # up, n, 0)
          else if c = CHR ''*'' \<or> c = CHR ''+'' \<or> c = CHR ''?'' then
            (case items of
               [] \<Rightarrow> Inl ReError
             | (r, quantified) # before \<Rightarrow>
                 if quantified \<or> nullable r then Inl Unmodelled
                 else
                   Inr ((g, alts,
                         (quantify (if c = CHR ''*'' then QStar
                                    else if c = CHR ''+'' then QPlus else QOpt) r, True)
                         # before) # up,
                        n, 0))
          else if c = CHR 0x5C then
            (case cs of
               [] \<Rightarrow> Inl ReError
             | d # ds \<Rightarrow>
                 if is_ascii d \<and> \<not> is_ascii_alnum d
                 then Inr ((g, alts, (Lit d, False) # items) # up, n, 1)
                 else Inl Unmodelled)
          else if c = CHR ''.'' then
            Inr ((g, alts, (AnyChar, False) # items) # up, n, 0)
          else if c = CHR ''['' \<or> c = CHR ''{'' \<or> c = CHR ''^'' \<or> c = CHR ''$'' then
            Inl Unmodelled
          else
            Inr ((g, alts, (Lit c, False) # items) # up, n, 0))"

text \<open>
  The pass over the pattern. At the end exactly the frame of the pattern itself must be
  open; the result is the parsed expression with its number of groups.
\<close>

fun parse_loop :: "frame list \<Rightarrow> nat \<Rightarrow> string \<Rightarrow> pyerror + (regex \<times> nat)" where
  "parse_loop stack n [] =
     (case stack of
        [f] \<Rightarrow> Inr (close_frame f, n)
      | _ \<Rightarrow> Inl ReError)"
| "parse_loop stack n (c # cs) =
     (case parse_step stack n c cs of
        Inl e \<Rightarrow> Inl e
      | Inr (stack', n', k) \<Rightarrow> parse_loop stack' n' (drop k cs))"

text \<open>
  \<open>re.compile\<close> with no flags argument: the flag \<open>(?i)\<close> is read off the start of the pattern.
  Under \<open>(?i)\<close> the fragment holds ASCII patterns only.
\<close>

definition re_compile :: "string \<Rightarrow> pyerror + (bool \<times> regex \<times> nat)" where
  "re_compile pattern =
     (if take 4 pattern = ''(?i)'' then
        (if list_all is_ascii pattern then
           (case parse_loop [(None, [], [])] 0 (drop 4 pattern) of
              Inl e \<Rightarrow> Inl e
            | Inr (r, n) \<Rightarrow> Inr (True, r, n))
         else Inl Unmodelled)
      else
        (case parse_loop [(None, [], [])] 0 pattern of
           Inl e \<Rightarrow> Inl e
         | Inr (r, n) \<Rightarrow> Inr (False, r, n)))"

text \<open>
  Under \<open>(?i)\<close> two characters are compared by their lower case. The pattern is ASCII then,
  and a character below 256 has the lower case of an ASCII letter only if it is that letter
  in either case.
\<close>

definition lower :: "char \<Rightarrow> char" where
  "lower c =
     (case map_of (zip ''ABCDEFGHIJKLMNOPQRSTUVWXYZ'' ''abcdefghijklmnopqrstuvwxyz'') c of
        None \<Rightarrow> c
      | Some l \<Rightarrow> l)"

definition same_char :: "bool \<Rightarrow> char \<Rightarrow> char \<Rightarrow> bool" where
  "same_char ignorecase p c = (if ignorecase then lower p = lower c else p = c)"

text \<open>
  The backtracking matcher. A configuration is the text still to be read and the groups
  captured so far; \<open>matches\<close> lists the configurations an expression can end in, in the order
  in which backtracking tries them: the left alternative before the right one, one more
  round of a star before leaving it. A group stores the text it consumed.
\<close>

type_synonym config = "string \<times> string option list"

function matches :: "bool \<Rightarrow> regex \<Rightarrow> config \<Rightarrow> config list" where
  "matches ic Eps cf = [cf]"
| "matches ic (Lit p) cf =
     (case fst cf of
        [] \<Rightarrow> []
      | c # cs \<Rightarrow> if same_char ic p c then [(cs, snd cf)] else [])"
| "matches ic AnyChar cf =
     (case fst cf of
        [] \<Rightarrow> []
      | c # cs \<Rightarrow> if c \<noteq> CHR 0x0A then [(cs, snd cf)] else [])"
| "matches ic (Seq a b) cf = concat (map (matches ic b) (matches ic a cf))"
| "matches ic (Alt a b) cf = matches ic a cf @ matches ic b cf"
| "matches ic (Star a) cf =
     concat (map (matches ic (Star a))
               (filter (\<lambda>cf'. length (fst cf') < length (fst cf)) (matches ic a cf)))
     @ [cf]"
| "matches ic (Group i a) cf =
     map (\<lambda>cf'. (fst cf',
                  (snd cf')[i - 1 := Some (take (length (fst cf) - length (fst cf')) (fst cf))]))
       (matches ic a cf)"
  by pat_completeness auto
termination
  by (relation "inv_image (less_than <*lex*> less_than)
                  (\<lambda>(ic, r, cf). (size r, length (fst cf)))") auto

declare matches.simps [simp del]

text \<open>
  A match object: \<open>group0\<close> is \<open>match.group(0)\<close>, the matched text, and \<open>groups\<close> is
  \<open>match.groups()\<close>, one entry per capturing group of the pattern, \<open>None\<close> for a group that
  took no part in the match.
\<close>

record Match =
  group0 :: string
  groups :: "string option list"

text \<open>
  \<open>re.match(pattern, string)\<close>: compile, then match at position 0 and take the first success;
  \<open>None\<close> when there is none. The pattern need not reach the end of the text.
\<close>

definition re_match :: "string \<Rightarrow> string \<Rightarrow> pyerror + Match option" where
  "re_match pattern text =
     (case re_compile pattern of
        Inl e \<Rightarrow> Inl e
      | Inr (ic, r, n) \<Rightarrow>
          Inr (case matches ic r (text, replicate n None) of
                 [] \<Rightarrow> None
               | (rest, g) # _ \<Rightarrow>
                   Some \<lparr>group0 = take (length text - length rest) text, groups = g\<rparr>))"

subsection \<open>Templates: the fragment of \<open>str.format\<close>\<close>

text \<open>
  The fragment: literal text, the escapes \<open>{{\<close> and \<open>}}\<close>, the automatically numbered field
  \<open>{}\<close>, the numbered field \<open>{N}\<close> of at most nine digits and the named field, which has no
  keyword argument to read here. A field with an attribute, an index, a conversion or a
  format specification (\<open>.\<close>, \<open>[\<close>, \<open>!\<close>, \<open>:\<close>) is outside the fragment.
\<close>

datatype an_state = ANS_INIT | ANS_AUTO | ANS_MANUAL

definition py_str :: "string option \<Rightarrow> string" where
  "py_str v = (case v of None \<Rightarrow> ''None'' | Some s \<Rightarrow> s)"

definition emit :: "string \<Rightarrow> pyerror + string \<Rightarrow> pyerror + string" where
  "emit s r = (case r of Inl e \<Rightarrow> Inl e | Inr out \<Rightarrow> Inr (s @ out))"

definition is_digit :: "char \<Rightarrow> bool" where
  "is_digit c = (let n = (of_char c :: nat) in 48 \<le> n \<and> n \<le> 57)"

definition get_integer :: "string \<Rightarrow> nat" where
  "get_integer ds = foldl (\<lambda>acc d. acc * 10 + (of_char d - 48)) 0 ds"

text \<open>
  One replacement field, given its name: the argument's text with the numbering state after
  it. An empty name takes the next argument, a name of digits the argument of that index;
  the two ways of numbering do not mix (\<open>ValueError\<close>), an index past the arguments is
  \<open>IndexError\<close>, and any other name is a keyword, which \<open>format(*entities)\<close> never has
  (\<open>KeyError\<close>).
\<close>

definition get_field ::
  "an_state \<Rightarrow> nat \<Rightarrow> string \<Rightarrow> string option list \<Rightarrow> pyerror + (string \<times> an_state \<times> nat)" where
  "get_field st auto name args =
     (if name = [] then
        (if st = ANS_MANUAL then Inl ValueError
         else if auto < length args then Inr (py_str (args ! auto), ANS_AUTO, Suc auto)
         else Inl IndexError)
      else if list_all is_digit name then
        (if 9 < length name then Inl Unmodelled
         else if st = ANS_AUTO then Inl ValueError
         else if get_integer name < length args
           then Inr (py_str (args ! get_integer name), ANS_MANUAL, auto)
         else Inl IndexError)
      else Inl KeyError)"

text \<open>
  The scan of the template, left to right. \<open>field\<close> is \<open>None\<close> in literal text and holds the
  name read so far (latest character first) inside a replacement field. The first error met
  ends the scan, as the exception does.
\<close>

fun format_scan ::
  "an_state \<Rightarrow> nat \<Rightarrow> string option list \<Rightarrow> string option \<Rightarrow> string \<Rightarrow> pyerror + string" where
  "format_scan st auto args None [] = Inr []"
| "format_scan st auto args (Some name) [] = Inl ValueError"
| "format_scan st auto args None (c # cs) =
     (if c = CHR ''{'' then
        (case cs of
           [] \<Rightarrow> Inl ValueError
         | d # ds \<Rightarrow>
             if d = CHR ''{'' then emit ''{'' (format_scan st auto args None ds)
             else format_scan st auto args (Some []) cs)
      else if c = CHR ''}'' then
        (case cs of
           [] \<Rightarrow> Inl ValueError
         | d # ds \<Rightarrow>
             if d = CHR ''}'' then emit ''}'' (format_scan st auto args None ds)
             else Inl ValueError)
      else emit [c] (format_scan st auto args None cs))"
| "format_scan st auto args (Some name) (c # cs) =
     (if c = CHR ''}'' then
        (case get_field st auto (rev name) args of
           Inl e \<Rightarrow> Inl e
         | Inr (v, st', auto') \<Rightarrow> emit v (format_scan st' auto' args None cs))
      else if c = CHR ''{'' then Inl ValueError
      else if c = CHR ''['' \<or> c = CHR ''.'' \<or> c = CHR '':'' \<or> c = CHR ''!'' then Inl Unmodelled
      else format_scan st auto args (Some (c # name)) cs)"

text \<open>\<open>template.format(*args)\<close>.\<close>

definition str_format :: "string \<Rightarrow> string option list \<Rightarrow> pyerror + string" where
  "str_format template args = format_scan ANS_INIT 0 args None template"

subsection \<open>The random source\<close>

text \<open>
  The state of the module \<open>random\<close> is the sequence of draws still to come, the next one at
  index 0. \<open>random.choice(seq)\<close> raises \<open>IndexError\<close> on an empty sequence and draws
  nothing; otherwise it takes one draw and returns the element at that draw reduced to an
  index of \<open>seq\<close>.
\<close>

type_synonym random_source = "nat \<Rightarrow> nat"

definition next_draw :: "random_source \<Rightarrow> nat" where
  "next_draw rs = rs 0"

definition advance :: "random_source \<Rightarrow> random_source" where
  "advance rs = (\<lambda>k. rs (Suc k))"

definition random_choice :: "'a list \<Rightarrow> random_source \<Rightarrow> (pyerror + 'a) \<times> random_source" where
  "random_choice seq rs =
     (if length seq = 0 then (Inl IndexError, rs)
      else (Inr (seq ! (next_draw rs mod length seq)), advance rs))"

subsection \<open>The connector\<close>

text \<open>
  The two collections read from JSON: the rule list, each rule a dictionary with the keys
  \<open>intent\<close> and \<open>pattern\<close>, and the response dictionary, from an intent to a dictionary whose
  key \<open>messages\<close> holds the templates. An inner dictionary is an association list, so that
  the empty dictionary, which is false in a condition, and one without \<open>messages\<close> are both
  values of the type.
\<close>

record PatternRule =
  intent :: string
  pattern :: string

type_synonym json_object = "(string \<times> string list) list"

record RegexConnector =
  intent_list :: "PatternRule list"
  response_dict :: "string \<rightharpoonup> json_object"

text \<open>What a call can read and write: the connector object and the random source.\<close>

record world =
  self :: RegexConnector
  random_state :: random_source

text \<open>
  The pair \<open>_process\<close> returns: \<open>(item['intent'], match.groups())\<close> or \<open>(None, None)\<close>.
\<close>

type_synonym MatchResult = "string option \<times> string option list option"

text \<open>
  The loop of \<open>_process\<close>:
  \<^verbatim>\<open>
    for item in self.intent_list:
        match = re.match(item['pattern'], message)
        if match:
            return (item['intent'], match.groups())
    return (None, None)
  \<close>
\<close>

fun process_loop :: "PatternRule list \<Rightarrow> string \<Rightarrow> pyerror + MatchResult" where
  "process_loop [] message = Inr (None, None)"
| "process_loop (item # items) message =
     (case re_match (pattern item) message of
        Inl e \<Rightarrow> Inl e
      | Inr None \<Rightarrow> process_loop items message
      | Inr (Some m) \<Rightarrow> Inr (Some (intent item), Some (groups m)))"

definition RegexConnector_process ::
  "string \<Rightarrow> world \<Rightarrow> (pyerror + MatchResult) \<times> world" where
  "RegexConnector_process message w = (process_loop (intent_list (self w)) message, w)"

text \<open>\<open>dict.get(key)\<close> of the response dictionary; its keys are strings, so \<open>None\<close> is no key.\<close>

definition dict_get :: "(string \<rightharpoonup> 'v) \<Rightarrow> string option \<Rightarrow> 'v option" where
  "dict_get d key = (case key of None \<Rightarrow> None | Some k \<Rightarrow> d k)"

text \<open>\<open>obj[key]\<close> of an inner dictionary.\<close>

definition getitem :: "json_object \<Rightarrow> string \<Rightarrow> pyerror + string list" where
  "getitem obj key = (case map_of obj key of None \<Rightarrow> Inl KeyError | Some v \<Rightarrow> Inr v)"

definition fallback :: string where
  "fallback = ''Could not figure out a proper response. Please try again.''"

text \<open>
  \<open>_postprocess\<close>:
  \<^verbatim>\<open>
    (intent, entities) = intent_tuple
    response_list = self.response_dict.get(intent)
    if response_list:
        response = random.choice(response_list['messages'])
        if entities:
            response = response.format(*entities)
    else:
        response = "Could not figure out a proper response. Please try again."
    return response
  \<close>
  \<open>if response_list\<close> holds for a dictionary that is not empty, \<open>if entities\<close> for a tuple
  that is not empty. The local \<open>intent\<close> is \<open>the_intent\<close> here, \<open>intent\<close> being the rule's field.
\<close>

definition RegexConnector_postprocess ::
  "MatchResult \<Rightarrow> world \<Rightarrow> (pyerror + string) \<times> world" where
  "RegexConnector_postprocess intent_tuple w =
     (case intent_tuple of (the_intent, entities) \<Rightarrow>
        (case dict_get (response_dict (self w)) the_intent of
           Some (kv # kvs) \<Rightarrow>
             (case getitem (kv # kvs) ''messages'' of
                Inl e \<Rightarrow> (Inl e, w)
              | Inr messages \<Rightarrow>
                  (case random_choice messages (random_state w) of
                     (Inl e, rs) \<Rightarrow> (Inl e, w\<lparr>random_state := rs\<rparr>)
                   | (Inr response, rs) \<Rightarrow>
                       (case entities of
                          Some (x # xs) \<Rightarrow> (str_format response (x # xs), w\<lparr>random_state := rs\<rparr>)
                        | _ \<Rightarrow> (Inr response, w\<lparr>random_state := rs\<rparr>))))
         | _ \<Rightarrow> (Inr fallback, w)))"

text \<open>
  Modelled from the spec: \<open>respond\<close> is inherited from the base class
  \<open>pybotframework.connector.Connector\<close>, which is not among the sources. By the specification
  (component design, operation \<open>respond\<close>, step 1) it calls \<open>_process\<close> on the text and hands
  the pair to \<open>_postprocess\<close>, whose result it returns; an exception of \<open>_process\<close> leaves
  the call.
\<close>

definition respond :: "string \<Rightarrow> world \<Rightarrow> (pyerror + string) \<times> world" where
  "respond text w =
     (case RegexConnector_process text w of
        (Inl e, w') \<Rightarrow> (Inl e, w')
      | (Inr intent_tuple, w') \<Rightarrow> RegexConnector_postprocess intent_tuple w')"

subsection \<open>Vocabulary of the properties\<close>

text \<open>
  No rule of the list matches the message: every \<open>re.match\<close> returns \<open>None\<close>.
\<close>

definition no_match :: "PatternRule list \<Rightarrow> string \<Rightarrow> bool" where
  "no_match rules message = list_all (\<lambda>r. re_match (pattern r) message = Inr None) rules"

text \<open>
  Rule \<open>i\<close> is the first rule that matches the message, with the match object \<open>m\<close>: no rule
  before it matches.
\<close>

definition first_match :: "PatternRule list \<Rightarrow> string \<Rightarrow> nat \<Rightarrow> Match \<Rightarrow> bool" where
  "first_match rules message i m =
     (i < length rules \<and> no_match (take i rules) message \<and>
      re_match (pattern (rules ! i)) message = Inr (Some m))"







subsection \<open>A configuration in the style of the tutorial\<close>

text \<open>
  A rule list and a response dictionary in the format of the tutorial's \<open>regex.json\<close> and
  \<open>responses.json\<close>. The first rule is the tutorial's; the others show the cases the
  properties speak about: an intent with no responses (\<open>hello\<close>), a later rule for the same
  messages (\<open>greet\<close>), a single template (\<open>iam\<close>), a pattern with no group whose template
  has a placeholder (\<open>quit\<close>), a template with more placeholders than the pattern has
  groups (\<open>what\<close>), an empty template list (\<open>because\<close>) and an empty dictionary
  (\<open>perhaps\<close>).
\<close>

definition demo :: RegexConnector where
  "demo =
     \<lparr>intent_list =
        [\<lparr>intent = ''need'', pattern = ''I need (.*)''\<rparr>,
         \<lparr>intent = ''hello'', pattern = ''Hello(.*)''\<rparr>,
         \<lparr>intent = ''greet'', pattern = ''Hello, (.*)''\<rparr>,
         \<lparr>intent = ''iam'', pattern = ''I am (.*)''\<rparr>,
         \<lparr>intent = ''quit'', pattern = ''quit''\<rparr>,
         \<lparr>intent = ''what'', pattern = ''What (.*)''\<rparr>,
         \<lparr>intent = ''because'', pattern = ''Because''\<rparr>,
         \<lparr>intent = ''perhaps'', pattern = ''Perhaps''\<rparr>],
      response_dict =
        [''need'' \<mapsto> [(''messages'', [''Why do you need {}?'', ''Are you sure you need {}?''])],
         ''greet'' \<mapsto> [(''messages'', [''Nice to meet you, {}.''])],
         ''iam'' \<mapsto> [(''messages'', [''How long have you been {}?''])],
         ''quit'' \<mapsto> [(''messages'', [''Bye {}''])],
         ''what'' \<mapsto> [(''messages'', [''{} or {}?''])],
         ''because'' \<mapsto> [(''messages'', [])],
         ''perhaps'' \<mapsto> []]\<rparr>"

definition demo_world :: "random_source \<Rightarrow> world" where
  "demo_world rs = \<lparr>self = demo, random_state = rs\<rparr>"

section \<open>Properties\<close>

subsection \<open>Evaluation and the library models\<close>

lemmas regex_eval =
  re_match_def re_compile_def parse_step_def close_frame_def close_branch_def quantify_def
  same_char_def lower_def is_ascii_def is_ascii_alnum_def matches.simps

lemmas demo_eval = demo_def demo_world_def first_match_def no_match_def

text \<open>The matcher never changes the number of group slots.\<close>

lemma matches_length:
  "cf' \<in> set (matches ic r cf) \<Longrightarrow> length (snd cf') = length (snd cf)"
proof (induction ic r cf arbitrary: cf' rule: matches.induct)
  case (1 ic cf)
  then show ?case by (simp add: matches.simps)
next
  case (2 ic p cf)
  then show ?case by (auto simp: matches.simps split: list.splits if_splits)
next
  case (3 ic cf)
  then show ?case by (auto simp: matches.simps split: list.splits if_splits)
next
  case (4 ic a b cf)
  from "4.prems" obtain cf1 where "cf1 \<in> set (matches ic a cf)" "cf' \<in> set (matches ic b cf1)"
    by (auto simp: matches.simps)
  with "4.IH" show ?case by fastforce
next
  case (5 ic a b cf)
  from "5.prems" have "cf' \<in> set (matches ic a cf) \<or> cf' \<in> set (matches ic b cf)"
    by (simp add: matches.simps)
  with "5.IH" show ?case by blast
next
  case (6 ic a cf)
  from "6.prems" have
    "cf' \<in> set (concat (map (matches ic (Star a))
        (filter (\<lambda>cf'. length (fst cf') < length (fst cf)) (matches ic a cf))) @ [cf])"
    by (simp only: matches.simps)
  then consider "cf' = cf"
    | cf1 where "cf1 \<in> set (matches ic a cf)" "length (fst cf1) < length (fst cf)"
        "cf' \<in> set (matches ic (Star a) cf1)"
    by auto
  then show ?case
  proof cases
    case 1
    then show ?thesis by simp
  next
    case 2
    with "6.IH" show ?thesis by fastforce
  qed
next
  case (7 ic i a cf)
  then show ?case by (auto simp: matches.simps)
qed

text \<open>Only an opening parenthesis opens a group.\<close>

lemma parse_step_no_group:
  "parse_step stack n c cs = Inr (stack', n', k) \<Longrightarrow> c \<noteq> CHR ''('' \<Longrightarrow> n' = n"
  unfolding parse_step_def
  by (simp split: list.splits prod.splits if_splits)

lemma parse_loop_no_group:
  "parse_loop stack n cs = Inr (r, n') \<Longrightarrow> CHR ''('' \<notin> set cs \<Longrightarrow> n' = n"
proof (induction stack n cs rule: parse_loop.induct)
  case (1 stack n)
  then show ?case by (simp split: list.splits)
next
  case (2 stack n c cs)
  from "2.prems" obtain stack' n1 k where
    step: "parse_step stack n c cs = Inr (stack', n1, k)"
    and rest: "parse_loop stack' n1 (drop k cs) = Inr (r, n')"
    by (auto split: sum.splits)
  from "2.prems" have "c \<noteq> CHR ''(''" and "CHR ''('' \<notin> set (drop k cs)"
    by (auto dest: in_set_dropD)
  with "2.IH" [OF step refl refl rest] parse_step_no_group [OF step] show ?case by simp
qed

lemma re_compile_no_group:
  "re_compile p = Inr (ic, r, n) \<Longrightarrow> CHR ''('' \<notin> set p \<Longrightarrow> n = 0"
proof -
  assume c: "re_compile p = Inr (ic, r, n)" and np: "CHR ''('' \<notin> set p"
  from np have "take 4 p \<noteq> ''(?i)''"
    by (metis in_set_takeD list.set_intros(1))
  with c have "parse_loop [(None, [], [])] 0 p = Inr (r, n)"
    by (simp add: re_compile_def split: sum.splits)
  from parse_loop_no_group [OF this np] show ?thesis .
qed

text \<open>\<open>match.groups()\<close> has one entry per group of the pattern.\<close>

lemma re_match_groups_length:
  "re_compile p = Inr (ic, r, n) \<Longrightarrow> re_match p message = Inr (Some m) \<Longrightarrow>
   length (groups m) = n"
proof -
  assume c: "re_compile p = Inr (ic, r, n)" and m: "re_match p message = Inr (Some m)"
  from c m obtain rest g cfs where
    ms: "matches ic r (message, replicate n None) = (rest, g) # cfs" and g: "groups m = g"
    by (auto simp: re_match_def split: list.splits)
  then have "(rest, g) \<in> set (matches ic r (message, replicate n None))" by simp
  from matches_length [OF this] g show ?thesis by simp
qed

lemma re_match_no_group:
  "re_match p message = Inr (Some m) \<Longrightarrow> CHR ''('' \<notin> set p \<Longrightarrow> groups m = []"
proof -
  assume m: "re_match p message = Inr (Some m)" and np: "CHR ''('' \<notin> set p"
  from m obtain ic r n where c: "re_compile p = Inr (ic, r, n)"
    by (auto simp: re_match_def split: sum.splits)
  from re_compile_no_group [OF c np] re_match_groups_length [OF c m] show ?thesis by simp
qed

text \<open>
  Templates: literal text is copied, a placeholder takes the next argument, and the scan
  of a template of literal text and placeholders either runs out of arguments or is the
  specification's substitution.
\<close>

lemmas format_eval = str_format_def get_field_def emit_def py_str_def











subsection \<open>The loop of \<open>_process\<close>\<close>

lemma process_loop_no_match:
  "no_match rules message \<Longrightarrow> process_loop rules message = Inr (None, None)"
  by (induction rules) (simp_all add: no_match_def)

lemma process_loop_first_match:
  "first_match rules message i m \<Longrightarrow>
   process_loop rules message = Inr (Some (intent (rules ! i)), Some (groups m))"
proof (induction rules arbitrary: i)
  case Nil
  then show ?case by (simp add: first_match_def)
next
  case (Cons r rules)
  show ?case
  proof (cases i)
    case 0
    with Cons.prems show ?thesis by (simp add: first_match_def)
  next
    case (Suc k)
    with Cons.prems have "first_match rules message k m"
      and "re_match (pattern r) message = Inr None"
      by (simp_all add: first_match_def no_match_def)
    with Cons.IH [of k] Suc show ?thesis by simp
  qed
qed

lemma respond_no_match:
  "no_match (intent_list (self w)) message \<Longrightarrow> respond message w = (Inr fallback, w)"
  by (simp add: respond_def RegexConnector_process_def process_loop_no_match
      RegexConnector_postprocess_def dict_get_def)

lemma respond_first_match:
  "first_match (intent_list (self w)) message i m \<Longrightarrow>
   respond message w =
     RegexConnector_postprocess
       (Some (intent (intent_list (self w) ! i)), Some (groups m)) w"
  by (simp add: respond_def RegexConnector_process_def process_loop_first_match)

lemma postprocess_unknown_intent:
  "response_dict (self w) label = None \<Longrightarrow>
   RegexConnector_postprocess (Some label, entities) w = (Inr fallback, w)"
  by (simp add: RegexConnector_postprocess_def dict_get_def)

subsection \<open>The branches of \<open>_postprocess\<close>\<close>

lemma postprocess_falsy_entry:
  "response_dict (self w) label = Some [] \<Longrightarrow>
   RegexConnector_postprocess (Some label, entities) w = (Inr fallback, w)"
  by (simp add: RegexConnector_postprocess_def dict_get_def)

lemma postprocess_no_messages_key:
  "response_dict (self w) label = Some entry \<Longrightarrow> entry \<noteq> [] \<Longrightarrow>
   map_of entry ''messages'' = None \<Longrightarrow>
   RegexConnector_postprocess (Some label, entities) w = (Inl KeyError, w)"
  by (cases entry) (simp_all add: RegexConnector_postprocess_def dict_get_def getitem_def)

lemma postprocess_empty_messages:
  "response_dict (self w) label = Some entry \<Longrightarrow> map_of entry ''messages'' = Some [] \<Longrightarrow>
   RegexConnector_postprocess (Some label, entities) w = (Inl IndexError, w)"
  by (cases entry)
    (simp_all add: RegexConnector_postprocess_def dict_get_def getitem_def random_choice_def)

lemma postprocess_template:
  "response_dict (self w) label = Some entry \<Longrightarrow>
   map_of entry ''messages'' = Some messages \<Longrightarrow> messages \<noteq> [] \<Longrightarrow>
   RegexConnector_postprocess (Some label, Some captures) w =
     (if captures = []
      then Inr (messages ! (next_draw (random_state w) mod length messages))
      else str_format (messages ! (next_draw (random_state w) mod length messages)) captures,
      w\<lparr>random_state := advance (random_state w)\<rparr>)"
  by (cases entry; cases captures)
    (simp_all add: RegexConnector_postprocess_def dict_get_def getitem_def random_choice_def)

lemma process_self: "snd (RegexConnector_process message w) = w"
  by (simp add: RegexConnector_process_def)

lemma postprocess_self: "self (snd (RegexConnector_postprocess t w)) = self w"
  by (simp add: RegexConnector_postprocess_def random_choice_def
      split: prod.splits option.splits list.splits sum.splits)

lemma respond_self: "self (snd (respond message w)) = self w"
  by (simp add: respond_def RegexConnector_process_def postprocess_self
      split: prod.splits sum.splits)

subsection \<open>Classification\<close>

text \<open>
  C1. \<open>_process\<close> tries the rules in list order with \<open>re.match\<close>. When rule \<open>i\<close> is the first
  whose pattern matches, it returns that rule's intent with the groups of the match,
  whatever the later rules are, and the groups are the empty sequence when the pattern
  opens no group; when no rule matches it returns \<open>(None, None)\<close>. The match is anchored at
  position 0 and need not reach the end of the message: \<open>b\<close> does not match \<open>ab\<close>, \<open>a\<close> does.
  It is case-sensitive unless the pattern says otherwise: \<open>a\<close> does not match \<open>A\<close>,
  \<open>(?i)a\<close> does.
\<close>

theorem process_first_match_wins:
  "(first_match (intent_list (self w)) message i m \<longrightarrow>
      fst (RegexConnector_process message w) =
        Inr (Some (intent (intent_list (self w) ! i)), Some (groups m)) \<and>
      (CHR ''('' \<notin> set (pattern (intent_list (self w) ! i)) \<longrightarrow> groups m = [])) \<and>
   (no_match (intent_list (self w)) message \<longrightarrow>
      fst (RegexConnector_process message w) = Inr (None, None)) \<and>
   re_match ''b'' ''ab'' = Inr None \<and>
   re_match ''a'' ''ab'' = Inr (Some \<lparr>group0 = ''a'', groups = []\<rparr>) \<and>
   re_match ''a'' ''A'' = Inr None \<and>
   re_match ''(?i)a'' ''A'' = Inr (Some \<lparr>group0 = ''A'', groups = []\<rparr>)"
proof -
  have first: "fst (RegexConnector_process message w) =
      Inr (Some (intent (intent_list (self w) ! i)), Some (groups m))"
    if "first_match (intent_list (self w)) message i m"
    using that by (simp add: RegexConnector_process_def process_loop_first_match)
  have none: "groups m = []"
    if "first_match (intent_list (self w)) message i m"
      and "CHR ''('' \<notin> set (pattern (intent_list (self w) ! i))"
    using that re_match_no_group [of "pattern (intent_list (self w) ! i)" message m]
    by (simp add: first_match_def)
  have nomatch: "fst (RegexConnector_process message w) = Inr (None, None)"
    if "no_match (intent_list (self w)) message"
    using that by (simp add: RegexConnector_process_def process_loop_no_match)
  have e1: "re_match ''b'' ''ab'' = Inr None"
    by (simp add: regex_eval)
  have e2: "re_match ''a'' ''ab'' = Inr (Some \<lparr>group0 = ''a'', groups = []\<rparr>)"
    by (simp add: regex_eval)
  have e3: "re_match ''a'' ''A'' = Inr None"
    by (simp add: regex_eval)
  have e4: "re_match ''(?i)a'' ''A'' = Inr (Some \<lparr>group0 = ''A'', groups = []\<rparr>)"
    by (simp add: regex_eval)
  from first none nomatch e1 e2 e3 e4 show ?thesis by blast
qed

theorem process_first_match_wins_witness:
  "first_match (intent_list demo) ''I am sad'' 3
     \<lparr>group0 = ''I am sad'', groups = [Some ''sad'']\<rparr> \<and>
   fst (RegexConnector_process ''I am sad'' (demo_world (\<lambda>k. k))) =
     Inr (Some ''iam'', Some [Some ''sad'']) \<and>
   first_match (intent_list demo) ''quit'' 4 \<lparr>group0 = ''quit'', groups = []\<rparr> \<and>
   CHR ''('' \<notin> set (pattern (intent_list demo ! 4)) \<and>
   fst (RegexConnector_process ''quit'' (demo_world (\<lambda>k. k))) = Inr (Some ''quit'', Some []) \<and>
   no_match (intent_list demo) ''Stop that!'' \<and>
   fst (RegexConnector_process ''Stop that!'' (demo_world (\<lambda>k. k))) = Inr (None, None)"
proof -
  let ?w = "demo_world (\<lambda>k. k)"
  have a: "first_match (intent_list (self ?w)) ''I am sad'' 3
             \<lparr>group0 = ''I am sad'', groups = [Some ''sad'']\<rparr>"
    by (simp add: demo_eval regex_eval)
  have b: "first_match (intent_list (self ?w)) ''quit'' 4 \<lparr>group0 = ''quit'', groups = []\<rparr>"
    by (simp add: demo_eval regex_eval)
  have c: "CHR ''('' \<notin> set (pattern (intent_list (self ?w) ! 4))"
    by (simp add: demo_eval)
  have d: "no_match (intent_list (self ?w)) ''Stop that!''"
    by (simp add: demo_eval regex_eval)
  have s: "self ?w = demo"
    by (simp add: demo_world_def)
  have i3: "intent (intent_list demo ! 3) = ''iam''" and i4: "intent (intent_list demo ! 4) = ''quit''"
    by (simp_all add: demo_def)
  from a b c d
    process_first_match_wins [of ?w "''I am sad''" 3 "\<lparr>group0 = ''I am sad'', groups = [Some ''sad'']\<rparr>"]
    process_first_match_wins [of ?w "''quit''" 4 "\<lparr>group0 = ''quit'', groups = []\<rparr>"]
    process_first_match_wins [of ?w "''Stop that!''" 0 "\<lparr>group0 = [], groups = []\<rparr>"]
  show ?thesis
    unfolding s i3 i4 by simp
qed

subsection \<open>The fallback\<close>

text \<open>
  C2. When no rule matches the message, and when the first matching rule's intent has no
  entry in the response dictionary, \<open>respond\<close> returns the fixed fallback string; no
  exception leaves the call, and the connector and the random source are left as they
  were.
\<close>

theorem respond_fallback:
  "(no_match (intent_list (self w)) message \<longrightarrow>
      respond message w =
        (Inr ''Could not figure out a proper response. Please try again.'', w)) \<and>
   (first_match (intent_list (self w)) message i m \<and>
    response_dict (self w) (intent (intent_list (self w) ! i)) = None \<longrightarrow>
      respond message w =
        (Inr ''Could not figure out a proper response. Please try again.'', w))"
  using respond_no_match [of w message] respond_first_match [of w message i m]
    postprocess_unknown_intent [of w "intent (intent_list (self w) ! i)" "Some (groups m)"]
  by (simp add: fallback_def)

theorem respond_fallback_witness:
  "no_match (intent_list demo) ''Stop that!'' \<and>
   respond ''Stop that!'' (demo_world (\<lambda>k. k)) =
     (Inr ''Could not figure out a proper response. Please try again.'',
      demo_world (\<lambda>k. k)) \<and>
   first_match (intent_list demo) ''Hello, Alain'' 1
     \<lparr>group0 = ''Hello, Alain'', groups = [Some '', Alain'']\<rparr> \<and>
   response_dict demo (intent (intent_list demo ! 1)) = None \<and>
   respond ''Hello, Alain'' (demo_world (\<lambda>k. k)) =
     (Inr ''Could not figure out a proper response. Please try again.'',
      demo_world (\<lambda>k. k))"
proof -
  let ?w = "demo_world (\<lambda>k. k)"
  let ?m = "\<lparr>group0 = ''Hello, Alain'', groups = [Some '', Alain'']\<rparr>"
  have s: "self ?w = demo"
    by (simp add: demo_world_def)
  have a: "no_match (intent_list demo) ''Stop that!''"
    by (simp add: demo_eval regex_eval)
  have b: "first_match (intent_list demo) ''Hello, Alain'' 1 ?m"
    by (simp add: demo_eval regex_eval)
  have c: "response_dict demo (intent (intent_list demo ! 1)) = None"
    by (simp add: demo_def)
  from a b c
    respond_fallback [of ?w "''Stop that!''" 1 ?m]
    respond_fallback [of ?w "''Hello, Alain''" 1 ?m]
  show ?thesis
    unfolding s by simp
qed

subsection \<open>Template mismatch\<close>




subsection \<open>First match wins\<close>

text \<open>
  C4. When rule \<open>i\<close> is the first rule that matches and its intent has no entry in the
  response dictionary, \<open>respond\<close> returns the fallback string, also when a later rule \<open>j\<close>
  matches the same message and its intent has an entry: \<open>_process\<close> has returned rule
  \<open>i\<close>'s intent, and no later rule is tried.
\<close>

theorem first_match_wins_over_later_rule:
  "first_match (intent_list (self w)) message i m \<Longrightarrow>
   response_dict (self w) (intent (intent_list (self w) ! i)) = None \<Longrightarrow>
   i < j \<Longrightarrow> j < length (intent_list (self w)) \<Longrightarrow>
   re_match (pattern (intent_list (self w) ! j)) message = Inr (Some m') \<Longrightarrow>
   response_dict (self w) (intent (intent_list (self w) ! j)) = Some entry \<Longrightarrow>
   fst (RegexConnector_process message w) =
     Inr (Some (intent (intent_list (self w) ! i)), Some (groups m)) \<and>
   respond message w =
     (Inr ''Could not figure out a proper response. Please try again.'', w)"
  using respond_first_match [of w message i m]
    postprocess_unknown_intent [of w "intent (intent_list (self w) ! i)" "Some (groups m)"]
    process_loop_first_match [of "intent_list (self w)" message i m]
  by (simp add: fallback_def RegexConnector_process_def)

theorem first_match_wins_over_later_rule_witness:
  "first_match (intent_list demo) ''Hello, Alain'' 1
     \<lparr>group0 = ''Hello, Alain'', groups = [Some '', Alain'']\<rparr> \<and>
   response_dict demo (intent (intent_list demo ! 1)) = None \<and>
   re_match (pattern (intent_list demo ! 2)) ''Hello, Alain'' =
     Inr (Some \<lparr>group0 = ''Hello, Alain'', groups = [Some ''Alain'']\<rparr>) \<and>
   response_dict demo (intent (intent_list demo ! 2)) =
     Some [(''messages'', [''Nice to meet you, {}.''])] \<and>
   fst (RegexConnector_process ''Hello, Alain'' (demo_world (\<lambda>k. k))) =
     Inr (Some ''hello'', Some [Some '', Alain'']) \<and>
   respond ''Hello, Alain'' (demo_world (\<lambda>k. k)) =
     (Inr ''Could not figure out a proper response. Please try again.'',
      demo_world (\<lambda>k. k))"
proof -
  let ?w = "demo_world (\<lambda>k. k)"
  let ?m = "\<lparr>group0 = ''Hello, Alain'', groups = [Some '', Alain'']\<rparr>"
  let ?m' = "\<lparr>group0 = ''Hello, Alain'', groups = [Some ''Alain'']\<rparr>"
  have s: "self ?w = demo"
    by (simp add: demo_world_def)
  have a: "first_match (intent_list demo) ''Hello, Alain'' 1 ?m"
    by (simp add: demo_eval regex_eval)
  have b: "response_dict demo (intent (intent_list demo ! 1)) = None"
    by (simp add: demo_def)
  have c: "re_match (pattern (intent_list demo ! 2)) ''Hello, Alain'' = Inr (Some ?m')"
    by (simp add: demo_eval regex_eval)
  have d: "response_dict demo (intent (intent_list demo ! 2)) =
      Some [(''messages'', [''Nice to meet you, {}.''])]"
    by (simp add: demo_def)
  have l: "(1::nat) < 2" "2 < length (intent_list demo)"
    by (simp_all add: demo_def)
  have i1: "intent (intent_list demo ! 1) = ''hello''"
    by (simp add: demo_def)
  from first_match_wins_over_later_rule
    [of ?w "''Hello, Alain''" 1 ?m 2 ?m' "[(''messages'', [''Nice to meet you, {}.''])]",
      unfolded s, OF a b l c d]
    a b c d
  show ?thesis
    unfolding i1 by simp
qed

subsection \<open>Selection and substitution\<close>




text \<open>
  C6. When the entry of the first matching rule's intent has exactly one template, the output
  of \<open>respond\<close> on the message does not depend on the random source: two calls from any
  two states of the random source, and a call after another call, return the same value,
  the template filled with the captures (or as it is when there are none).
\<close>

theorem single_template_deterministic:
  "first_match (intent_list (self w)) message i m \<Longrightarrow>
   response_dict (self w) (intent (intent_list (self w) ! i)) = Some entry \<Longrightarrow>
   map_of entry ''messages'' = Some [t] \<Longrightarrow>
   self w' = self w \<Longrightarrow>
   fst (respond message w') = fst (respond message w) \<and>
   fst (respond message (snd (respond message w))) = fst (respond message w) \<and>
   fst (respond message w) = (if groups m = [] then Inr t else str_format t (groups m))"
proof -
  assume fm: "first_match (intent_list (self w)) message i m"
    and e: "response_dict (self w) (intent (intent_list (self w) ! i)) = Some entry"
    and t: "map_of entry ''messages'' = Some [t]"
    and eq: "self w' = self w"
  have one: "fst (respond message v) = (if groups m = [] then Inr t else str_format t (groups m))"
    if "self v = self w" for v
    using that fm e t respond_first_match [of v message i m]
      postprocess_template [of v "intent (intent_list (self w) ! i)" entry "[t]" "groups m"]
    by simp
  from one [of w] one [of w', OF eq] one [of "snd (respond message w)", OF respond_self]
  show ?thesis by simp
qed

theorem single_template_deterministic_witness:
  "first_match (intent_list demo) ''I am sad'' 3
     \<lparr>group0 = ''I am sad'', groups = [Some ''sad'']\<rparr> \<and>
   response_dict demo (intent (intent_list demo ! 3)) =
     Some [(''messages'', [''How long have you been {}?''])] \<and>
   fst (respond ''I am sad'' (demo_world (\<lambda>k. 7 * k + 3))) =
     fst (respond ''I am sad'' (demo_world (\<lambda>k. k))) \<and>
   fst (respond ''I am sad'' (snd (respond ''I am sad'' (demo_world (\<lambda>k. k))))) =
     fst (respond ''I am sad'' (demo_world (\<lambda>k. k))) \<and>
   fst (respond ''I am sad'' (demo_world (\<lambda>k. k))) = Inr ''How long have you been sad?''"
proof -
  let ?w = "demo_world (\<lambda>k. k)"
  let ?w' = "demo_world (\<lambda>k. 7 * k + 3)"
  let ?m = "\<lparr>group0 = ''I am sad'', groups = [Some ''sad'']\<rparr>"
  let ?entry = "[(''messages'', [''How long have you been {}?''])]"
  have s: "self ?w = demo" "self ?w' = demo"
    by (simp_all add: demo_world_def)
  have a: "first_match (intent_list demo) ''I am sad'' 3 ?m"
    by (simp add: demo_eval regex_eval)
  have b: "response_dict demo (intent (intent_list demo ! 3)) = Some ?entry"
    by (simp add: demo_def)
  have c: "map_of ?entry ''messages'' = Some [''How long have you been {}?'']"
    by simp
  have f: "str_format ''How long have you been {}?'' [Some ''sad''] =
      Inr ''How long have you been sad?''"
    by (simp add: str_format_def get_field_def emit_def py_str_def)
  from single_template_deterministic
    [of ?w "''I am sad''" 3 ?m ?entry "''How long have you been {}?''" ?w',
      unfolded s, OF a b c refl]
    a b f
  show ?thesis by simp
qed

subsection \<open>The alternation group\<close>

text \<open>
  C7, as stated, fails. \<open>_process\<close> passes no flags to \<open>re.match\<close>, so the pattern is
  case-insensitive by its own \<open>(?i)\<close>; it then matches \<open>Hello, Alain\<close>, and the pair carries
  one capture, \<open>Hello\<close>, not none: the parentheses of the alternation are a capturing
  group.
\<close>

theorem alternation_group_counterexample:
  "fst (RegexConnector_process ''Hello, Alain''
          \<lparr>self = \<lparr>intent_list = [\<lparr>intent = ''greeting'', pattern = ''(?i)(hi|hello)''\<rparr>],
                    response_dict = Map.empty\<rparr>,
           random_state = (\<lambda>k. k)\<rparr>) =
     Inr (Some ''greeting'', Some [Some ''Hello'']) \<and>
   length [Some ''Hello''] = Suc 0"
  by (simp add: RegexConnector_process_def regex_eval)

text \<open>
  C7, amended. The pattern \<open>(?i)(hi|hello)\<close> matches \<open>Hello, Alain\<close> in \<open>_process\<close>, and the
  pair carries exactly one capture, \<open>Hello\<close>. Without the flag the pattern does not match
  \<open>Hello, Alain\<close>; it matches \<open>hello, Alain\<close>, again with one capture.
\<close>

theorem alternation_group_is_captured:
  "fst (RegexConnector_process ''Hello, Alain''
          \<lparr>self = \<lparr>intent_list = \<lparr>intent = label, pattern = ''(?i)(hi|hello)''\<rparr> # rules,
                    response_dict = d\<rparr>,
           random_state = rs\<rparr>) =
     Inr (Some label, Some [Some ''Hello'']) \<and>
   re_match ''(hi|hello)'' ''Hello, Alain'' = Inr None \<and>
   re_match ''(hi|hello)'' ''hello, Alain'' =
     Inr (Some \<lparr>group0 = ''hello'', groups = [Some ''hello'']\<rparr>)"
proof -
  have "re_match ''(?i)(hi|hello)'' ''Hello, Alain'' =
      Inr (Some \<lparr>group0 = ''Hello'', groups = [Some ''Hello'']\<rparr>)"
    by (simp add: regex_eval)
  then have "fst (RegexConnector_process ''Hello, Alain''
          \<lparr>self = \<lparr>intent_list = \<lparr>intent = label, pattern = ''(?i)(hi|hello)''\<rparr> # rules,
                    response_dict = d\<rparr>,
           random_state = rs\<rparr>) =
     Inr (Some label, Some [Some ''Hello''])"
    by (simp add: RegexConnector_process_def)
  moreover have "re_match ''(hi|hello)'' ''Hello, Alain'' = Inr None"
    by (simp add: regex_eval)
  moreover have "re_match ''(hi|hello)'' ''hello, Alain'' =
     Inr (Some \<lparr>group0 = ''hello'', groups = [Some ''hello'']\<rparr>)"
    by (simp add: regex_eval)
  ultimately show ?thesis by simp
qed

subsection \<open>Frame\<close>

text \<open>
  C8. \<open>_process\<close>, \<open>_postprocess\<close> and \<open>respond\<close> leave the connector as it was: the rule
  list and the response dictionary after a call are those before it, and \<open>_process\<close>
  leaves the random source alone as well. The result of \<open>_process\<close> is the same for every
  state of the random source and after any earlier call of \<open>respond\<close>: it depends on the
  connector and the message only.
\<close>

theorem connector_state_unchanged:
  "snd (RegexConnector_process message w) = w \<and>
   intent_list (self (snd (RegexConnector_postprocess t w))) = intent_list (self w) \<and>
   response_dict (self (snd (RegexConnector_postprocess t w))) = response_dict (self w) \<and>
   intent_list (self (snd (respond message w))) = intent_list (self w) \<and>
   response_dict (self (snd (respond message w))) = response_dict (self w) \<and>
   fst (RegexConnector_process message \<lparr>self = c, random_state = rs\<rparr>) =
     fst (RegexConnector_process message \<lparr>self = c, random_state = rs'\<rparr>) \<and>
   fst (RegexConnector_process message (snd (respond message' w))) =
     fst (RegexConnector_process message w)"
  by (simp add: process_self postprocess_self respond_self RegexConnector_process_def)

subsection \<open>Empty template lists and empty captures\<close>

text \<open>
  C9. When the entry of the first matching rule's intent has an empty list under
  \<open>messages\<close>, \<open>respond\<close> raises \<open>IndexError\<close>, the error of \<open>random.choice\<close> on an empty
  sequence, and does not return the fallback string. The fallback branch is taken for an
  entry that is an empty dictionary (and for no entry, C2); with any other entry a string
  that \<open>respond\<close> returns is one of the entry's templates, filled with the captures or as
  it is.
\<close>

theorem empty_template_list_raises:
  "(first_match (intent_list (self w)) message i m \<and>
    response_dict (self w) (intent (intent_list (self w) ! i)) = Some entry \<and>
    map_of entry ''messages'' = Some [] \<longrightarrow>
      respond message w = (Inl IndexError, w)) \<and>
   (first_match (intent_list (self w)) message i m \<and>
    response_dict (self w) (intent (intent_list (self w) ! i)) = Some [] \<longrightarrow>
      respond message w =
        (Inr ''Could not figure out a proper response. Please try again.'', w)) \<and>
   (first_match (intent_list (self w)) message i m \<and>
    response_dict (self w) (intent (intent_list (self w) ! i)) = Some entry \<and>
    entry \<noteq> [] \<and> fst (respond message w) = Inr s \<longrightarrow>
      (\<exists>messages k. map_of entry ''messages'' = Some messages \<and> k < length messages \<and>
         (if groups m = [] then Inr (messages ! k) else str_format (messages ! k) (groups m))
           = Inr s))"
proof (intro conjI impI)
  assume "first_match (intent_list (self w)) message i m \<and>
    response_dict (self w) (intent (intent_list (self w) ! i)) = Some entry \<and>
    map_of entry ''messages'' = Some []"
  then show "respond message w = (Inl IndexError, w)"
    using respond_first_match [of w message i m]
      postprocess_empty_messages [of w "intent (intent_list (self w) ! i)" entry "Some (groups m)"]
    by simp
next
  assume "first_match (intent_list (self w)) message i m \<and>
    response_dict (self w) (intent (intent_list (self w) ! i)) = Some []"
  then show "respond message w =
      (Inr ''Could not figure out a proper response. Please try again.'', w)"
    using respond_first_match [of w message i m]
      postprocess_falsy_entry [of w "intent (intent_list (self w) ! i)" "Some (groups m)"]
    by (simp add: fallback_def)
next
  assume h: "first_match (intent_list (self w)) message i m \<and>
    response_dict (self w) (intent (intent_list (self w) ! i)) = Some entry \<and>
    entry \<noteq> [] \<and> fst (respond message w) = Inr s"
  let ?label = "intent (intent_list (self w) ! i)"
  from h have r: "respond message w = RegexConnector_postprocess (Some ?label, Some (groups m)) w"
    using respond_first_match [of w message i m] by simp
  show "\<exists>messages k. map_of entry ''messages'' = Some messages \<and> k < length messages \<and>
         (if groups m = [] then Inr (messages ! k) else str_format (messages ! k) (groups m))
           = Inr s"
  proof (cases "map_of entry ''messages''")
    case None
    with h r postprocess_no_messages_key [of w ?label entry "Some (groups m)"]
    show ?thesis by simp
  next
    case (Some messages)
    show ?thesis
    proof (cases "messages = []")
      case True
      with Some h r postprocess_empty_messages [of w ?label entry "Some (groups m)"]
      show ?thesis by simp
    next
      case False
      let ?k = "next_draw (random_state w) mod length messages"
      from False have "?k < length messages" by simp
      moreover from Some False h r postprocess_template [of w ?label entry messages "groups m"]
      have "(if groups m = [] then Inr (messages ! ?k) else str_format (messages ! ?k) (groups m))
          = Inr s"
        by (simp split: if_splits)
      ultimately show ?thesis using Some by blast
    qed
  qed
qed

theorem empty_template_list_raises_witness:
  "first_match (intent_list demo) ''Because'' 6 \<lparr>group0 = ''Because'', groups = []\<rparr> \<and>
   response_dict demo (intent (intent_list demo ! 6)) = Some [(''messages'', [])] \<and>
   respond ''Because'' (demo_world (\<lambda>k. k)) = (Inl IndexError, demo_world (\<lambda>k. k)) \<and>
   first_match (intent_list demo) ''Perhaps'' 7 \<lparr>group0 = ''Perhaps'', groups = []\<rparr> \<and>
   response_dict demo (intent (intent_list demo ! 7)) = Some [] \<and>
   respond ''Perhaps'' (demo_world (\<lambda>k. k)) =
     (Inr ''Could not figure out a proper response. Please try again.'',
      demo_world (\<lambda>k. k)) \<and>
   first_match (intent_list demo) ''quit'' 4 \<lparr>group0 = ''quit'', groups = []\<rparr> \<and>
   response_dict demo (intent (intent_list demo ! 4)) = Some [(''messages'', [''Bye {}''])] \<and>
   fst (respond ''quit'' (demo_world (\<lambda>k. k))) = Inr ''Bye {}'' \<and>
   (\<exists>messages k. map_of [(''messages'', [''Bye {}''])] ''messages'' = Some messages \<and>
      k < length messages \<and> Inr (messages ! k) = (Inr ''Bye {}'' :: pyerror + string))"
proof -
  let ?w = "demo_world (\<lambda>k. k)"
  let ?m6 = "\<lparr>group0 = ''Because'', groups = []\<rparr>"
  let ?m7 = "\<lparr>group0 = ''Perhaps'', groups = []\<rparr>"
  let ?m4 = "\<lparr>group0 = ''quit'', groups = []\<rparr>"
  have s: "self ?w = demo"
    by (simp add: demo_world_def)
  have a6: "first_match (intent_list demo) ''Because'' 6 ?m6"
    by (simp add: demo_eval regex_eval)
  have b6: "response_dict demo (intent (intent_list demo ! 6)) = Some [(''messages'', [])]"
    by (simp add: demo_def)
  have a7: "first_match (intent_list demo) ''Perhaps'' 7 ?m7"
    by (simp add: demo_eval regex_eval)
  have b7: "response_dict demo (intent (intent_list demo ! 7)) = Some []"
    by (simp add: demo_def)
  have a4: "first_match (intent_list demo) ''quit'' 4 ?m4"
    by (simp add: demo_eval regex_eval)
  have b4: "response_dict demo (intent (intent_list demo ! 4)) = Some [(''messages'', [''Bye {}''])]"
    by (simp add: demo_def)
  have r4: "fst (respond ''quit'' ?w) = Inr ''Bye {}''"
    using respond_first_match [of ?w "''quit''" 4 ?m4] a4 b4
      postprocess_template [of ?w "intent (intent_list demo ! 4)" "[(''messages'', [''Bye {}''])]"
        "[''Bye {}'']" "[]"]
    by (simp add: s)
  from empty_template_list_raises [of ?w "''Because''" 6 ?m6 "[(''messages'', [])]" "[]"]
    a6 b6
  have c6: "respond ''Because'' ?w = (Inl IndexError, ?w)"
    by (simp add: s)
  from empty_template_list_raises [of ?w "''Perhaps''" 7 ?m7 "[]" "[]"] a7 b7
  have c7: "respond ''Perhaps'' ?w =
      (Inr ''Could not figure out a proper response. Please try again.'', ?w)"
    by (simp add: s)
  from empty_template_list_raises [of ?w "''quit''" 4 ?m4 "[(''messages'', [''Bye {}''])]" "''Bye {}''"]
    a4 b4 r4
  have c4: "\<exists>messages k. map_of [(''messages'', [''Bye {}''])] ''messages'' = Some messages \<and>
      k < length messages \<and> Inr (messages ! k) = (Inr ''Bye {}'' :: pyerror + string)"
    by (simp add: s)
  from a6 b6 c6 a7 b7 c7 a4 b4 r4 c4 show ?thesis by blast
qed

text \<open>
  C10. When the first matching rule's pattern captures nothing, \<open>respond\<close> skips the
  substitution and returns the drawn template as it is, whatever the template holds, a
  placeholder \<open>{}\<close> included; no formatting error is raised, and one draw is taken from the
  random source.
\<close>

theorem no_captures_template_verbatim:
  "first_match (intent_list (self w)) message i m \<Longrightarrow> groups m = [] \<Longrightarrow>
   response_dict (self w) (intent (intent_list (self w) ! i)) = Some entry \<Longrightarrow>
   map_of entry ''messages'' = Some messages \<Longrightarrow> messages \<noteq> [] \<Longrightarrow>
   respond message w =
     (Inr (messages ! (next_draw (random_state w) mod length messages)),
      w\<lparr>random_state := advance (random_state w)\<rparr>)"
  using respond_first_match [of w message i m]
    postprocess_template [of w "intent (intent_list (self w) ! i)" entry messages "groups m"]
  by simp

theorem no_captures_template_verbatim_witness:
  "first_match (intent_list demo) ''quit'' 4 \<lparr>group0 = ''quit'', groups = []\<rparr> \<and>
   response_dict demo (intent (intent_list demo ! 4)) = Some [(''messages'', [''Bye {}''])] \<and>
   str_format ''Bye {}'' [] = Inl IndexError \<and>
   respond ''quit'' (demo_world (\<lambda>k. k)) =
     (Inr ''Bye {}'', demo_world (advance (\<lambda>k. k)))"
proof -
  let ?w = "demo_world (\<lambda>k. k)"
  let ?m = "\<lparr>group0 = ''quit'', groups = []\<rparr>"
  let ?entry = "[(''messages'', [''Bye {}''])]"
  have s: "self ?w = demo"
    by (simp add: demo_world_def)
  have a: "first_match (intent_list demo) ''quit'' 4 ?m"
    by (simp add: demo_eval regex_eval)
  have b: "response_dict demo (intent (intent_list demo ! 4)) = Some ?entry"
    by (simp add: demo_def)
  have f: "str_format ''Bye {}'' [] = Inl IndexError"
    by (simp add: format_eval)
  from no_captures_template_verbatim [of ?w "''quit''" 4 ?m ?entry "[''Bye {}'']", unfolded s, OF a _ b]
  have "respond ''quit'' ?w = (Inr ''Bye {}'', ?w\<lparr>random_state := advance (random_state ?w)\<rparr>)"
    by simp
  then have "respond ''quit'' ?w = (Inr ''Bye {}'', demo_world (advance (\<lambda>k. k)))"
    by (simp add: demo_world_def)
  with a b f show ?thesis by simp
qed

end
